theory Spec2Isabelle
  imports Complex_Main
begin

section \<open>The chapter store (src/store/useEbookStore.ts)\<close>

subsection \<open>Numbers\<close>

text \<open>
  A JavaScript number is a finite value, an infinity or NaN. The finite numbers the store
  computes with are whole numbers (a chapter index, a page count rounded up by Math.ceil)
  and halves (the cost of a small image), which double precision adds exactly; so the finite
  values are kept as reals.
\<close>

datatype number = Fin real | PosInfinity | NegInfinity | NaN

fun js_add :: "number \<Rightarrow> number \<Rightarrow> number" where
  "js_add NaN _ = NaN"
| "js_add _ NaN = NaN"
| "js_add PosInfinity NegInfinity = NaN"
| "js_add NegInfinity PosInfinity = NaN"
| "js_add PosInfinity _ = PosInfinity"
| "js_add _ PosInfinity = PosInfinity"
| "js_add NegInfinity _ = NegInfinity"
| "js_add _ NegInfinity = NegInfinity"
| "js_add (Fin a) (Fin b) = Fin (a + b)"

text \<open>Math.max of two numbers: NaN when either is NaN.\<close>

fun js_max :: "number \<Rightarrow> number \<Rightarrow> number" where
  "js_max NaN _ = NaN"
| "js_max _ NaN = NaN"
| "js_max PosInfinity _ = PosInfinity"
| "js_max _ PosInfinity = PosInfinity"
| "js_max NegInfinity b = b"
| "js_max a NegInfinity = a"
| "js_max (Fin a) (Fin b) = Fin (max a b)"

text \<open>The comparison \<open>a > b\<close>: false when either side is NaN.\<close>

fun js_gt :: "number \<Rightarrow> number \<Rightarrow> bool" where
  "js_gt NaN _ = False"
| "js_gt _ NaN = False"
| "js_gt PosInfinity b = (b \<noteq> PosInfinity)"
| "js_gt _ PosInfinity = False"
| "js_gt NegInfinity _ = False"
| "js_gt _ NegInfinity = True"
| "js_gt (Fin a) (Fin b) = (a > b)"

subsection \<open>Data model\<close>

text \<open>
  The types of \<open>../types\<close>, as the store uses them. The record fields carry a prefix
  (\<open>ch_\<close>, \<open>sub_\<close>, \<open>img_\<close>) because chapters, subchapters and the extractor's
  entries share the field names \<open>id\<close>, \<open>title\<close>, \<open>content\<close> and \<open>pageNumber\<close>;
  the four values of \<open>type\<close> carry one too. An optional field is an \<open>option\<close>.
\<close>

datatype ChapterType = type_frontmatter | type_toc | type_chapter | type_backmatter

record Image =
  img_width :: number

record SubChapter =
  sub_id :: string
  sub_title :: string
  sub_content :: string
  sub_pageNumber :: "number option"

record Chapter =
  ch_id :: string
  ch_title :: string
  ch_content :: string
  ch_images :: "Image list"
  ch_type :: ChapterType
  ch_indentation :: number
  ch_lineSpacing :: number
  ch_subChapters :: "SubChapter list"
  ch_pageNumber :: "number option"

text \<open>\<open>Partial<Chapter>\<close>: every field may be absent.\<close>

record PartialChapter =
  p_id :: "string option"
  p_title :: "string option"
  p_content :: "string option"
  p_images :: "Image list option"
  p_type :: "ChapterType option"
  p_indentation :: "number option"
  p_lineSpacing :: "number option"
  p_subChapters :: "SubChapter list option"
  p_pageNumber :: "number option option"

record Margins =
  margin_top :: number
  margin_bottom :: number
  margin_left :: number
  margin_right :: number

record FontSpec =
  font_family :: string
  font_size :: number
  font_alignment :: string
  font_lineHeight :: number

text \<open>
  The settings fields that the store's operations read: the cover image and what
  \<open>calculatePageNumbers\<close> derives the characters per page from.
\<close>

record EbookSettings =
  coverImage :: "string option"
  paperSize :: string
  margins :: Margins
  fonts_paragraph :: FontSpec

record EbookStore =
  chapters :: "Chapter list"
  settings :: EbookSettings

subsection \<open>Chapter numbering\<close>

text \<open>
  The pass that closes addChapter, updateChapter and removeChapter (lines 148-154, 165-171,
  180-186): a counter starting at 1, given to each entry of type chapter in list order.
\<close>

fun numberFrom :: "nat \<Rightarrow> Chapter list \<Rightarrow> Chapter list" where
  "numberFrom chapterNumber [] = []"
| "numberFrom chapterNumber (ch # rest) =
     (if ch_type ch = type_chapter
      then ch\<lparr>ch_pageNumber := Some (Fin (real chapterNumber))\<rparr> # numberFrom (Suc chapterNumber) rest
      else ch # numberFrom chapterNumber rest)"

definition numberChapters :: "Chapter list \<Rightarrow> Chapter list" where
  "numberChapters chs = numberFrom 1 chs"

subsection \<open>addChapter, updateChapter, removeChapter\<close>

text \<open>The JavaScript \<open>a || b\<close> on an optional field: \<open>b\<close> when the field is absent or falsy.\<close>

definition orElse :: "'a option \<Rightarrow> ('a \<Rightarrow> bool) \<Rightarrow> 'a \<Rightarrow> 'a" where
  "orElse v truthy d = (case v of None \<Rightarrow> d | Some x \<Rightarrow> if truthy x then x else d)"

definition truthyString :: "string \<Rightarrow> bool" where
  "truthyString s = (s \<noteq> [])"

definition truthyNumber :: "number \<Rightarrow> bool" where
  "truthyNumber n = (n \<noteq> Fin 0 \<and> n \<noteq> NaN)"

definition isPreType :: "ChapterType \<Rightarrow> bool" where
  "isPreType t = (t = type_frontmatter \<or> t = type_toc)"

text \<open>A while loop of addChapter: advance the index while it is in range and the entry's
  type satisfies the test.\<close>

function skipWhile :: "(ChapterType \<Rightarrow> bool) \<Rightarrow> Chapter list \<Rightarrow> nat \<Rightarrow> nat" where
  "skipWhile p chs insertIndex =
     (if insertIndex < length chs \<and> p (ch_type (chs ! insertIndex))
      then skipWhile p chs (Suc insertIndex) else insertIndex)"
  by pat_completeness auto
termination
  by (relation "measure (\<lambda>(p, chs, i). length chs - i)") auto

declare skipWhile.simps [simp del]

definition insertIndexFor :: "ChapterType \<Rightarrow> Chapter list \<Rightarrow> nat" where
  "insertIndexFor t chs =
     (if t = type_frontmatter \<or> t = type_toc then skipWhile isPreType chs 0
      else if t = type_chapter then skipWhile (\<lambda>u. u = type_chapter) chs (skipWhile isPreType chs 0)
      else length chs)"

text \<open>\<open>crypto.randomUUID()\<close> is the parameter \<open>uuid\<close>.\<close>

definition newChapter :: "string \<Rightarrow> PartialChapter \<Rightarrow> Chapter" where
  "newChapter uuid p =
     \<lparr> ch_id = uuid,
       ch_title = orElse (p_title p) truthyString ''New Chapter'',
       ch_content = orElse (p_content p) truthyString [],
       ch_images = orElse (p_images p) (\<lambda>_. True) [],
       ch_type = orElse (p_type p) (\<lambda>_. True) type_chapter,
       ch_indentation = orElse (p_indentation p) truthyNumber (Fin 0),
       ch_lineSpacing = orElse (p_lineSpacing p) truthyNumber (Fin (3 / 2)),
       ch_subChapters = orElse (p_subChapters p) (\<lambda>_. True) [],
       ch_pageNumber = None \<rparr>"

definition addChapter :: "string \<Rightarrow> PartialChapter \<Rightarrow> EbookStore \<Rightarrow> EbookStore" where
  "addChapter uuid p state =
     (let new = newChapter uuid p;
          insertIndex = insertIndexFor (ch_type new) (chapters state);
          updatedChapters = take insertIndex (chapters state) @ new # drop insertIndex (chapters state)
      in state\<lparr>chapters := numberChapters updatedChapters\<rparr>)"

text \<open>The spread \<open>{ ...ch, ...chapter }\<close>: each field present in the partial replaces the
  chapter's.\<close>

definition merge :: "Chapter \<Rightarrow> PartialChapter \<Rightarrow> Chapter" where
  "merge ch p =
     \<lparr> ch_id = (case p_id p of None \<Rightarrow> ch_id ch | Some v \<Rightarrow> v),
       ch_title = (case p_title p of None \<Rightarrow> ch_title ch | Some v \<Rightarrow> v),
       ch_content = (case p_content p of None \<Rightarrow> ch_content ch | Some v \<Rightarrow> v),
       ch_images = (case p_images p of None \<Rightarrow> ch_images ch | Some v \<Rightarrow> v),
       ch_type = (case p_type p of None \<Rightarrow> ch_type ch | Some v \<Rightarrow> v),
       ch_indentation = (case p_indentation p of None \<Rightarrow> ch_indentation ch | Some v \<Rightarrow> v),
       ch_lineSpacing = (case p_lineSpacing p of None \<Rightarrow> ch_lineSpacing ch | Some v \<Rightarrow> v),
       ch_subChapters = (case p_subChapters p of None \<Rightarrow> ch_subChapters ch | Some v \<Rightarrow> v),
       ch_pageNumber = (case p_pageNumber p of None \<Rightarrow> ch_pageNumber ch | Some v \<Rightarrow> v) \<rparr>"

definition updateChapter :: "string \<Rightarrow> PartialChapter \<Rightarrow> EbookStore \<Rightarrow> EbookStore" where
  "updateChapter ident p state =
     (let updatedChapters = map (\<lambda>ch. if ch_id ch = ident then merge ch p else ch) (chapters state)
      in state\<lparr>chapters := numberChapters updatedChapters\<rparr>)"

definition removeChapter :: "string \<Rightarrow> EbookStore \<Rightarrow> EbookStore" where
  "removeChapter ident state =
     (let filteredChapters = filter (\<lambda>ch. ch_id ch \<noteq> ident) (chapters state)
      in state\<lparr>chapters := numberChapters filteredChapters\<rparr>)"

text \<open>The three operations as one type, to run sequences of them.\<close>

datatype Mutation =
    AddChapter string PartialChapter
  | UpdateChapter string PartialChapter
  | RemoveChapter string

fun applyMutation :: "EbookStore \<Rightarrow> Mutation \<Rightarrow> EbookStore" where
  "applyMutation state (AddChapter uuid p) = addChapter uuid p state"
| "applyMutation state (UpdateChapter ident p) = updateChapter ident p state"
| "applyMutation state (RemoveChapter ident) = removeChapter ident state"

definition isChapter :: "Chapter \<Rightarrow> bool" where
  "isChapter ch = (ch_type ch = type_chapter)"

subsection \<open>calculatePageNumbers\<close>

text \<open>
  Lines 225-231 derive \<open>charsPerPage\<close> from the paper size, the margins and the paragraph
  font in floating point, and lines 254 and 281 divide a content length by it and round up.
  That arithmetic is not modelled. It enters as the parameter \<open>contentPages\<close>:
  \<open>contentPages settings n\<close> stands for \<open>Math.ceil(n / charsPerPage)\<close> under these
  settings, and every theorem below holds whatever function it is. Everything else of the
  function is modelled as written.
\<close>

type_synonym estimate = "EbookSettings \<Rightarrow> nat \<Rightarrow> number"

text \<open>The estimate for settings with the default paper, margins and paragraph font (A4,
  2.54, size 12 at line height 1.5): \<open>charsPerLine\<close> is 37 and \<open>linesPerPage\<close> is
  38, so \<open>charsPerPage\<close> is 1406. It is used for the concrete stores below.\<close>

definition defaultContentPages :: estimate where
  "defaultContentPages s n = Fin (of_int \<lceil>real n / 1406\<rceil>)"

fun js_ceil :: "number \<Rightarrow> number" where
  "js_ceil (Fin x) = Fin (of_int \<lceil>x\<rceil>)"
| "js_ceil n = n"

record Counters =
  romanPageCount :: number
  arabicPageCount :: number

text \<open>\<open>if (settings.coverImage)\<close>: a string that is present and not empty.\<close>

definition hasCover :: "EbookSettings \<Rightarrow> bool" where
  "hasCover s = (case coverImage s of None \<Rightarrow> False | Some img \<Rightarrow> truthyString img)"

text \<open>Lines 221-239: the counters when the first chapter is reached.\<close>

definition initialCounters :: "EbookSettings \<Rightarrow> Counters" where
  "initialCounters s =
     (let c0 = \<lparr> romanPageCount = Fin 1, arabicPageCount = Fin 1 \<rparr>;
          c1 = (if hasCover s then c0\<lparr>arabicPageCount := js_add (arabicPageCount c0) (Fin 1)\<rparr> else c0)
      in c1\<lparr>arabicPageCount := js_add (arabicPageCount c1) (Fin 1)\<rparr>)"

text \<open>\<open>isPreContent ? romanPageCount : arabicPageCount\<close>, and the two-branch increment
  \<open>if (isPreContent) romanPageCount += n else arabicPageCount += n\<close>.\<close>

definition current :: "bool \<Rightarrow> Counters \<Rightarrow> number" where
  "current isPreContent c = (if isPreContent then romanPageCount c else arabicPageCount c)"

definition advance :: "bool \<Rightarrow> number \<Rightarrow> Counters \<Rightarrow> Counters" where
  "advance isPreContent n c =
     (if isPreContent then c\<lparr>romanPageCount := js_add (romanPageCount c) n\<rparr>
      else c\<lparr>arabicPageCount := js_add (arabicPageCount c) n\<rparr>)"

definition imagePages :: "Image list \<Rightarrow> number" where
  "imagePages imgs =
     foldl (\<lambda>total image.
        if js_gt (img_width image) (Fin 50) then js_add total (Fin 1)
        else js_add total (Fin (1 / 2))) (Fin 0) imgs"

fun pageSubChapters ::
  "(nat \<Rightarrow> number) \<Rightarrow> bool \<Rightarrow> Counters \<Rightarrow> SubChapter list \<Rightarrow> SubChapter list \<times> Counters" where
  "pageSubChapters ceilPages isPreContent c [] = ([], c)"
| "pageSubChapters ceilPages isPreContent c (sub # subs) =
     (let subPages = js_max (Fin 1) (ceilPages (length (sub_content sub)));
          subPageNumber = current isPreContent c;
          r = pageSubChapters ceilPages isPreContent (advance isPreContent subPages c) subs
      in (sub\<lparr>sub_pageNumber := Some subPageNumber\<rparr> # fst r, snd r))"

definition pageChapter :: "(nat \<Rightarrow> number) \<Rightarrow> Counters \<Rightarrow> Chapter \<Rightarrow> Chapter \<times> Counters" where
  "pageChapter ceilPages c chapter =
     (let isPreContent = (ch_type chapter = type_frontmatter \<or> ch_type chapter = type_toc);
          pageCount = current isPreContent c;
          c1 = advance isPreContent (Fin 1) c;
          contentPages = ceilPages (length (ch_content chapter));
          totalImagePages = js_ceil (imagePages (ch_images chapter));
          totalPages = js_max (Fin 1) (js_add contentPages totalImagePages);
          c2 = advance isPreContent totalPages c1;
          r = pageSubChapters ceilPages isPreContent c2 (ch_subChapters chapter)
      in (chapter\<lparr>ch_pageNumber := Some pageCount, ch_subChapters := fst r\<rparr>, snd r))"

fun pageChapters :: "(nat \<Rightarrow> number) \<Rightarrow> Counters \<Rightarrow> Chapter list \<Rightarrow> Chapter list" where
  "pageChapters ceilPages c [] = []"
| "pageChapters ceilPages c (chapter # rest) =
     fst (pageChapter ceilPages c chapter) #
     pageChapters ceilPages (snd (pageChapter ceilPages c chapter)) rest"

definition calculatePageNumbers :: "estimate \<Rightarrow> EbookStore \<Rightarrow> EbookStore" where
  "calculatePageNumbers contentPages state =
     state\<lparr>chapters :=
       pageChapters (contentPages (settings state)) (initialCounters (settings state))
         (chapters state)\<rparr>"

subsection \<open>reorderChapters, addSubChapter, removeSubChapter\<close>

text \<open>Lines 198-202: every main chapter takes the next number.\<close>

fun numberAll :: "nat \<Rightarrow> Chapter list \<Rightarrow> Chapter list" where
  "numberAll chapterNumber [] = []"
| "numberAll chapterNumber (ch # rest) =
     ch\<lparr>ch_pageNumber := Some (Fin (real chapterNumber))\<rparr> # numberAll (Suc chapterNumber) rest"

definition reorderChapters :: "estimate \<Rightarrow> Chapter list \<Rightarrow> EbookStore \<Rightarrow> EbookStore" where
  "reorderChapters contentPages chs state =
     (let frontmatterChapters = filter (\<lambda>ch. ch_type ch = type_frontmatter) chs;
          tocChapters = filter (\<lambda>ch. ch_type ch = type_toc) chs;
          mainChapters = filter (\<lambda>ch. ch_type ch = type_chapter) chs;
          backmatterChapters = filter (\<lambda>ch. ch_type ch = type_backmatter) chs;
          numberedMainChapters = numberAll 1 mainChapters;
          orderedChapters =
            frontmatterChapters @ tocChapters @ numberedMainChapters @ backmatterChapters
      in calculatePageNumbers contentPages (state\<lparr>chapters := orderedChapters\<rparr>))"

text \<open>addSubChapter calls \<open>crypto.randomUUID()\<close> once for every chapter whose id is
  \<open>chapterId\<close>, in list order: \<open>randomUUID k\<close> is the value of the k-th call.\<close>

fun appendSubChapter :: "(nat \<Rightarrow> string) \<Rightarrow> nat \<Rightarrow> string \<Rightarrow> string \<Rightarrow> Chapter list \<Rightarrow> Chapter list" where
  "appendSubChapter randomUUID k chapterId title [] = []"
| "appendSubChapter randomUUID k chapterId title (ch # rest) =
     (if ch_id ch = chapterId
      then ch\<lparr>ch_subChapters := ch_subChapters ch @
             [\<lparr> sub_id = randomUUID k, sub_title = title, sub_content = [],
                sub_pageNumber = None \<rparr>]\<rparr> #
           appendSubChapter randomUUID (Suc k) chapterId title rest
      else ch # appendSubChapter randomUUID k chapterId title rest)"

definition addSubChapter ::
  "estimate \<Rightarrow> (nat \<Rightarrow> string) \<Rightarrow> string \<Rightarrow> string \<Rightarrow> EbookStore \<Rightarrow> EbookStore" where
  "addSubChapter contentPages randomUUID chapterId title state =
     calculatePageNumbers contentPages
       (state\<lparr>chapters := appendSubChapter randomUUID 0 chapterId title (chapters state)\<rparr>)"

definition removeSubChapter :: "estimate \<Rightarrow> string \<Rightarrow> string \<Rightarrow> EbookStore \<Rightarrow> EbookStore" where
  "removeSubChapter contentPages chapterId subChapterId state =
     calculatePageNumbers contentPages
       (state\<lparr>chapters :=
          map (\<lambda>ch. if ch_id ch = chapterId
                 then ch\<lparr>ch_subChapters :=
                        filter (\<lambda>sub. sub_id sub \<noteq> subChapterId) (ch_subChapters ch)\<rparr>
                 else ch) (chapters state)\<rparr>)"

subsection \<open>What a recompute leaves alone\<close>

text \<open>A subchapter and a chapter with their page numbers blanked: what is left is every
  other field.\<close>

definition stripSub :: "SubChapter \<Rightarrow> SubChapter" where
  "stripSub sub = sub\<lparr>sub_pageNumber := None\<rparr>"

definition stripChapter :: "Chapter \<Rightarrow> Chapter" where
  "stripChapter ch = ch\<lparr>ch_pageNumber := None, ch_subChapters := map stripSub (ch_subChapters ch)\<rparr>"

subsection \<open>The initial store and inputs used below\<close>

text \<open>Lines 17-107, the fields modelled.\<close>

definition defaultSettings :: EbookSettings where
  "defaultSettings =
     \<lparr> coverImage = None,
       paperSize = ''A4'',
       margins = \<lparr> margin_top = Fin (254 / 100), margin_bottom = Fin (254 / 100),
                   margin_left = Fin (254 / 100), margin_right = Fin (254 / 100) \<rparr>,
       fonts_paragraph = \<lparr> font_family = ''Helvetica'', font_size = Fin 12,
                           font_alignment = ''justify'', font_lineHeight = Fin (3 / 2) \<rparr> \<rparr>"

definition initialStore :: EbookStore where
  "initialStore = \<lparr> chapters = [], settings = defaultSettings \<rparr>"

text \<open>The partial \<open>{}\<close> and the partial \<open>{ type: t }\<close>.\<close>

definition emptyPartial :: PartialChapter where
  "emptyPartial =
     \<lparr> p_id = None, p_title = None, p_content = None, p_images = None, p_type = None,
       p_indentation = None, p_lineSpacing = None, p_subChapters = None, p_pageNumber = None \<rparr>"

definition typedPartial :: "ChapterType \<Rightarrow> PartialChapter" where
  "typedPartial t = emptyPartial\<lparr>p_type := Some t\<rparr>"

text \<open>A store with one chapter, after \<open>addChapter({})\<close>; the same store after a recompute;
  and a store with a cover image and one front-matter entry.\<close>

definition oneChapterStore :: EbookStore where
  "oneChapterStore = addChapter ''a'' emptyPartial initialStore"

definition pagedStore :: EbookStore where
  "pagedStore = calculatePageNumbers defaultContentPages oneChapterStore"

definition coverStore :: EbookStore where
  "coverStore =
     addChapter ''f'' (typedPartial type_frontmatter)
       (initialStore\<lparr>settings := defaultSettings\<lparr>coverImage := Some ''cover.png''\<rparr>\<rparr>)"

text \<open>The chapter-typed entries carry 1..K in list order.\<close>

definition numbered :: "Chapter list \<Rightarrow> bool" where
  "numbered chs =
     (map ch_pageNumber (filter isChapter chs) =
      map (\<lambda>k. Some (Fin (real k))) [1 ..< Suc (length (filter isChapter chs))])"

section \<open>The table-of-contents extractor (processTableOfContents)\<close>

subsection \<open>Characters and the three patterns\<close>

text \<open>
  A string is a list of 8-bit characters, one per UTF-16 code unit below 256. Of the code
  units JavaScript treats as white space or as line terminators, those are tab, line feed,
  vertical tab, form feed, carriage return, space and the no-break space; the ones above 255
  are outside the model.
\<close>

definition isDigit :: "char \<Rightarrow> bool" where
  "isDigit c = (c \<in> set ''0123456789'')"

definition isSpace :: "char \<Rightarrow> bool" where
  "isSpace c = (c \<in> {CHR 0x09, CHR 0x0A, CHR 0x0B, CHR 0x0C, CHR 0x0D, CHR '' '', CHR 0xA0})"

definition isLineTerminator :: "char \<Rightarrow> bool" where
  "isLineTerminator c = (c = CHR 0x0A \<or> c = CHR 0x0D)"

text \<open>The flag \<open>i\<close> compares characters after mapping them to upper case; for the
  characters of the three patterns only the letters a-z are affected.\<close>

definition toUpper :: "char \<Rightarrow> char" where
  "toUpper c =
     (case map_of (zip ''abcdefghijklmnopqrstuvwxyz'' ''ABCDEFGHIJKLMNOPQRSTUVWXYZ'') c of
        None \<Rightarrow> c | Some u \<Rightarrow> u)"

text \<open>A literal pattern matches at the start of a string, ignoring case.\<close>

fun matchesIgnoreCase :: "string \<Rightarrow> string \<Rightarrow> bool" where
  "matchesIgnoreCase [] s = True"
| "matchesIgnoreCase (p # ps) [] = False"
| "matchesIgnoreCase (p # ps) (c # cs) = (toUpper p = toUpper c \<and> matchesIgnoreCase ps cs)"

text \<open>\<open>s.match(re)[0]\<close> and \<open>re.test(s)\<close>: the match at the leftmost position that has
  one. \<open>matchAt\<close> gives the text matched at the start of a suffix.\<close>

fun firstMatch :: "(string \<Rightarrow> string option) \<Rightarrow> string \<Rightarrow> string option" where
  "firstMatch matchAt [] = matchAt []"
| "firstMatch matchAt (c # cs) =
     (case matchAt (c # cs) of Some m \<Rightarrow> Some m | None \<Rightarrow> firstMatch matchAt cs)"

text \<open>The tail \<open>[:\s]?.*\<close> of the chapter and subchapter patterns: at most one colon or
  white-space character, then everything up to a line terminator.\<close>

definition trailing :: "string \<Rightarrow> string" where
  "trailing s =
     (case s of
        [] \<Rightarrow> []
      | c # cs \<Rightarrow>
          if c = CHR '':'' \<or> isSpace c then c # takeWhile (\<lambda>d. \<not> isLineTerminator d) cs
          else takeWhile (\<lambda>d. \<not> isLineTerminator d) (c # cs))"

text \<open>\<open>/Bab \d+[:\s]?.*/gi\<close> at the start of \<open>s\<close>.\<close>

definition babAt :: "string \<Rightarrow> string option" where
  "babAt s =
     (if matchesIgnoreCase ''Bab '' s \<and> takeWhile isDigit (drop 4 s) \<noteq> []
      then Some (take 4 s @ takeWhile isDigit (drop 4 s) @ trailing (dropWhile isDigit (drop 4 s)))
      else None)"

text \<open>\<open>/\d+\.\d+[:\s]?.*/gi\<close> at the start of \<open>s\<close>.\<close>

definition subbabAt :: "string \<Rightarrow> string option" where
  "subbabAt s =
     (let whole = takeWhile isDigit s; r = dropWhile isDigit s
      in case r of
           [] \<Rightarrow> None
         | c # r2 \<Rightarrow>
             if whole \<noteq> [] \<and> c = CHR ''.'' \<and> takeWhile isDigit r2 \<noteq> []
             then Some (whole @ c # takeWhile isDigit r2 @ trailing (dropWhile isDigit r2))
             else None)"

text \<open>\<open>/(Kata Pengantar|Daftar Isi)/gi\<close> and \<open>/Bab 1/i\<close> at the start of \<open>s\<close>.\<close>

definition specialAt :: "string \<Rightarrow> string option" where
  "specialAt s =
     (if matchesIgnoreCase ''Kata Pengantar'' s then Some (take 14 s)
      else if matchesIgnoreCase ''Daftar Isi'' s then Some (take 10 s)
      else None)"

definition bab1At :: "string \<Rightarrow> string option" where
  "bab1At s = (if matchesIgnoreCase ''Bab 1'' s then Some (take 5 s) else None)"

subsection \<open>String operations\<close>

definition trim :: "string \<Rightarrow> string" where
  "trim s = rev (dropWhile isSpace (rev (dropWhile isSpace s)))"

text \<open>\<open>text.split('\n')\<close>.\<close>

fun split :: "string \<Rightarrow> string list" where
  "split [] = [[]]"
| "split (c # cs) =
     (if c = CHR 0x0A then [] # split cs
      else (case split cs of [] \<Rightarrow> [[c]] | l # ls \<Rightarrow> (c # l) # ls))"

text \<open>\<open>lines.indexOf(line)\<close>, for a line of \<open>lines\<close>: the first position holding an
  equal string.\<close>

fun indexOf :: "string list \<Rightarrow> string \<Rightarrow> nat" where
  "indexOf [] x = 0"
| "indexOf (l # ls) x = (if l = x then 0 else Suc (indexOf ls x))"

definition digitChar :: "nat \<Rightarrow> char" where
  "digitChar d = ''0123456789'' ! d"

text \<open>A count in decimal, as \<open>String(n)\<close> and a template literal print it.\<close>

fun String :: "nat \<Rightarrow> string" where
  "String n = (if n < 10 then [digitChar n] else String (n div 10) @ [digitChar (n mod 10)])"

declare String.simps [simp del]

subsection \<open>Entries and the state of a run\<close>

datatype EntryType = entry_frontmatter | entry_chapter | entry_subchapter

text \<open>\<open>pageNumber\<close> is the string \<open>romanPage\<close> on a front-matter entry and the number
  \<open>pageCounter\<close> on the others.\<close>

datatype PageLabel = Label string | Page nat

record TocEntry =
  entry_type :: EntryType
  entry_title :: string
  entry_content :: string
  entry_pageNumber :: PageLabel

text \<open>The variables of lines 31-39. A JavaScript Set keeps its elements in insertion order,
  so \<open>seenHeadings\<close> is the list of its elements in that order.\<close>

record Extraction =
  tableOfContents :: "TocEntry list"
  seenHeadings :: "string list"
  pageCounter :: nat
  isMainContentStarted :: bool
  romanIndex :: nat

definition romanNumerals :: "string list" where
  "romanNumerals = [''i'', ''ii'', ''iii'', ''iv'', ''v'', ''vi'', ''vii'', ''viii'', ''ix'', ''x'']"

text \<open>\<open>romanNumerals[romanIndex] || String(romanIndex + 1)\<close>.\<close>

definition romanPageAt :: "nat \<Rightarrow> string" where
  "romanPageAt k = (if k < length romanNumerals then romanNumerals ! k else String (k + 1))"

definition has :: "string list \<Rightarrow> string \<Rightarrow> bool" where
  "has seen h = (h \<in> set seen)"

definition add :: "string \<Rightarrow> string list \<Rightarrow> string list" where
  "add h seen = (if h \<in> set seen then seen else seen @ [h])"

subsection \<open>The scan\<close>

text \<open>Lines 49-63: the front-matter pattern on one line.\<close>

definition special :: "string \<Rightarrow> Extraction \<Rightarrow> Extraction" where
  "special line st =
     (case firstMatch specialAt line of
        None \<Rightarrow> st
      | Some m \<Rightarrow>
          let specialHeading = trim m in
          if \<not> has (seenHeadings st) specialHeading then
            let romanPage = romanPageAt (romanIndex st)
            in st\<lparr> tableOfContents := tableOfContents st @
                      [\<lparr> entry_type = entry_frontmatter, entry_title = specialHeading,
                         entry_content = specialHeading @ '' - Halaman '' @ romanPage,
                         entry_pageNumber = Label romanPage \<rparr>],
                    seenHeadings := add specialHeading (seenHeadings st),
                    romanIndex := romanIndex st + 1 \<rparr>
          else st)"

text \<open>Lines 65-81: the chapter pattern. The title is the line after the first line of the
  page equal to this one, or empty when there is none or it is empty.\<close>

definition bab :: "string list \<Rightarrow> string \<Rightarrow> Extraction \<Rightarrow> Extraction" where
  "bab lines line st =
     (case firstMatch babAt line of
        None \<Rightarrow> st
      | Some m \<Rightarrow>
          let babHeading = trim m in
          if \<not> has (seenHeadings st) babHeading then
            let i = indexOf lines line + 1;
                babTitle = (if i < length lines \<and> lines ! i \<noteq> [] then trim (lines ! i) else [])
            in if isMainContentStarted st then
                 st\<lparr> tableOfContents := tableOfContents st @
                       [\<lparr> entry_type = entry_chapter, entry_title = babTitle,
                          entry_content = ''BAB '' @ String (length (tableOfContents st) + 1) @
                            '' : '' @ babTitle,
                          entry_pageNumber = Page (pageCounter st) \<rparr>],
                     seenHeadings := add babHeading (seenHeadings st) \<rparr>
               else st
          else st)"

text \<open>Lines 83-95: the subchapter pattern.\<close>

definition subbab :: "string \<Rightarrow> Extraction \<Rightarrow> Extraction" where
  "subbab line st =
     (case firstMatch subbabAt line of
        None \<Rightarrow> st
      | Some m \<Rightarrow>
          let subbabHeading = trim m in
          if \<not> has (seenHeadings st) subbabHeading \<and> isMainContentStarted st then
            st\<lparr> tableOfContents := tableOfContents st @
                  [\<lparr> entry_type = entry_subchapter, entry_title = subbabHeading,
                     entry_content = subbabHeading @ '' - Halaman '' @ String (pageCounter st),
                     entry_pageNumber = Page (pageCounter st) \<rparr>],
                seenHeadings := add subbabHeading (seenHeadings st) \<rparr>
          else st)"

definition processLine :: "string list \<Rightarrow> Extraction \<Rightarrow> string \<Rightarrow> Extraction" where
  "processLine lines st line = subbab line (bab lines line (special line st))"

text \<open>Lines 41-101: one page.\<close>

definition processPage :: "Extraction \<Rightarrow> string \<Rightarrow> Extraction" where
  "processPage st text =
     (let st1 = (if \<not> isMainContentStarted st \<and> firstMatch bab1At text \<noteq> None
                 then st\<lparr>isMainContentStarted := True, pageCounter := 1\<rparr> else st);
          lines = split text;
          st2 = foldl (processLine lines) st1 lines
      in if isMainContentStarted st2 then st2\<lparr>pageCounter := pageCounter st2 + 1\<rparr> else st2)"

definition start :: Extraction where
  "start = \<lparr> tableOfContents = [], seenHeadings = [], pageCounter = 0,
             isMainContentStarted = False, romanIndex = 0 \<rparr>"

definition scan :: "string list \<Rightarrow> Extraction" where
  "scan pagesText = foldl processPage start pagesText"

definition processTableOfContents :: "string list \<Rightarrow> TocEntry list" where
  "processTableOfContents pagesText = tableOfContents (scan pagesText)"

subsection \<open>Inputs and predicates used below\<close>

definition nl :: string where
  "nl = [CHR 0x0A]"

text \<open>The four pages \<open>"Kata Pengantar\nhello"\<close>, \<open>"Bab 1\nIntroduction"\<close>,
  \<open>"1.1 Overview\nbody"\<close>, \<open>"Bab 2\nNext"\<close>; a foreword page followed by a first chapter;
  and eleven pages, each a front-matter heading in a different spelling.\<close>

definition examplePages :: "string list" where
  "examplePages =
     [''Kata Pengantar'' @ nl @ ''hello'', ''Bab 1'' @ nl @ ''Introduction'',
      ''1.1 Overview'' @ nl @ ''body'', ''Bab 2'' @ nl @ ''Next'']"

definition forewordPages :: "string list" where
  "forewordPages = [''Kata Pengantar'', ''Bab 1'' @ nl @ ''Introduction'']"

definition elevenHeadings :: "string list" where
  "elevenHeadings =
     [''Kata Pengantar'', ''kata pengantar'', ''KATA PENGANTAR'', ''Kata pengantar'',
      ''kata Pengantar'', ''KATA pengantar'', ''Daftar Isi'', ''daftar isi'', ''DAFTAR ISI'',
      ''Daftar isi'', ''daftar Isi'']"

definition isFrontmatter :: "TocEntry \<Rightarrow> bool" where
  "isFrontmatter e = (entry_type e = entry_frontmatter)"

text \<open>An entry and the heading it was recorded under: the heading is the title of a
  front-matter or subchapter entry; a chapter entry does not keep its heading, which is a
  text that the chapter pattern matches from its first character.\<close>

definition keyed :: "TocEntry \<Rightarrow> string \<Rightarrow> bool" where
  "keyed e h = (if entry_type e = entry_chapter then babAt h \<noteq> None else entry_title e = h)"

text \<open>The label and the content line of the front-matter entry recorded when
  \<open>romanIndex\<close> was \<open>k\<close>.\<close>

definition labelled :: "TocEntry \<Rightarrow> nat \<Rightarrow> bool" where
  "labelled e k =
     (entry_pageNumber e = Label (romanPageAt k) \<and>
      entry_content e = entry_title e @ '' - Halaman '' @ romanPageAt k)"

subsection \<open>The heading behind each entry\<close>

text \<open>The heading a step works with on a line: the trimmed text of the leftmost match of
  its pattern (\<open>specialMatch[0].trim()\<close>, \<open>babMatch[0].trim()\<close>, \<open>subbabMatch[0].trim()\<close>);
  empty when the line has no match, in which case the step does nothing.\<close>

definition headingOn :: "(string \<Rightarrow> string option) \<Rightarrow> string \<Rightarrow> string" where
  "headingOn matchAt line = (case firstMatch matchAt line of None \<Rightarrow> [] | Some m \<Rightarrow> trim m)"

text \<open>
  A chapter entry does not keep the heading it was recorded for. To speak of it, the scan
  is run with a log beside the state: whenever a step pushes an entry, the heading that
  step works with on the line is appended to the log. The log is no variable of the
  source and no step reads it; it lists, for the entries of the output in order, the
  heading text whose match recorded each of them.
\<close>

definition logged ::
  "string \<Rightarrow> (Extraction \<Rightarrow> Extraction) \<Rightarrow> Extraction \<times> string list \<Rightarrow> Extraction \<times> string list" where
  "logged h step p =
     (step (fst p),
      if length (tableOfContents (step (fst p))) = length (tableOfContents (fst p)) then snd p
      else snd p @ [h])"

definition processLineLogged ::
  "string list \<Rightarrow> Extraction \<times> string list \<Rightarrow> string \<Rightarrow> Extraction \<times> string list" where
  "processLineLogged lines p line =
     logged (headingOn subbabAt line) (subbab line)
       (logged (headingOn babAt line) (bab lines line)
         (logged (headingOn specialAt line) (special line) p))"

definition processPageLogged :: "Extraction \<times> string list \<Rightarrow> string \<Rightarrow> Extraction \<times> string list" where
  "processPageLogged p text =
     (let st1 = (if \<not> isMainContentStarted (fst p) \<and> firstMatch bab1At text \<noteq> None
                 then (fst p)\<lparr>isMainContentStarted := True, pageCounter := 1\<rparr> else fst p);
          lines = split text;
          q = foldl (processLineLogged lines) (st1, snd p) lines
      in (if isMainContentStarted (fst q) then (fst q)\<lparr>pageCounter := pageCounter (fst q) + 1\<rparr>
          else fst q,
          snd q))"

definition scanLogged :: "string list \<Rightarrow> Extraction \<times> string list" where
  "scanLogged pagesText = foldl processPageLogged (start, []) pagesText"

definition matchedHeadings :: "string list \<Rightarrow> string list" where
  "matchedHeadings pagesText = snd (scanLogged pagesText)"

text \<open>Two pages with the same chapter heading.\<close>

definition repeatedPages :: "string list" where
  "repeatedPages = [''Bab 1'' @ nl @ ''A'', ''Bab 1'' @ nl @ ''A'']"

text \<open>Two properties of the state that every step of the scan keeps: the front-matter
  entries carry the labels of the counter values 0, 1, ... below \<open>romanIndex\<close>; and the
  recorded headings are pairwise different and stand beside the entries.\<close>

definition romanInv :: "Extraction \<Rightarrow> bool" where
  "romanInv st =
     list_all2 labelled (filter isFrontmatter (tableOfContents st)) [0 ..< romanIndex st]"

definition seenInv :: "Extraction \<Rightarrow> bool" where
  "seenInv st =
     (distinct (seenHeadings st) \<and> list_all2 keyed (tableOfContents st) (seenHeadings st))"

text \<open>And one of the logged scan: the log is the set of recorded headings, in insertion
  order.\<close>

definition logInv :: "Extraction \<times> string list \<Rightarrow> bool" where
  "logInv p = (snd p = seenHeadings (fst p))"

section \<open>Chapter numbering after add, update, remove\<close>

lemma upt_shift: "[n ..< n + Suc k] = n # [Suc n ..< Suc n + k]"
  by (simp add: upt_conv_Cons)

lemma numberFrom_pageNumbers:
  "map ch_pageNumber (filter isChapter (numberFrom n chs)) =
   map (\<lambda>k. Some (Fin (real k))) [n ..< n + length (filter isChapter chs)]"
proof (induction chs arbitrary: n)
  case Nil
  show ?case by simp
next
  case (Cons ch rest)
  show ?case
  proof (cases "ch_type ch = type_chapter")
    case True
    then have "map ch_pageNumber (filter isChapter (numberFrom n (ch # rest))) =
      Some (Fin (real n)) # map ch_pageNumber (filter isChapter (numberFrom (Suc n) rest))"
      by (simp add: isChapter_def)
    also have "\<dots> = Some (Fin (real n)) #
        map (\<lambda>k. Some (Fin (real k))) [Suc n ..< Suc n + length (filter isChapter rest)]"
      by (simp only: Cons.IH)
    also have "\<dots> = map (\<lambda>k. Some (Fin (real k))) [n ..< n + Suc (length (filter isChapter rest))]"
      by (simp only: upt_shift list.map)
    finally have step: "map ch_pageNumber (filter isChapter (numberFrom n (ch # rest))) =
      map (\<lambda>k. Some (Fin (real k))) [n ..< n + Suc (length (filter isChapter rest))]" .
    have len: "length (filter isChapter (ch # rest)) = Suc (length (filter isChapter rest))"
      using True by (simp add: isChapter_def)
    show ?thesis by (simp only: step len)
  next
    case False
    with Cons.IH [of n] show ?thesis
      by (simp add: isChapter_def)
  qed
qed

lemma numberFrom_count:
  "length (filter isChapter (numberFrom n chs)) = length (filter isChapter chs)"
  by (induction chs arbitrary: n) (auto simp: isChapter_def)

lemma numberChapters_numbered: "numbered (numberChapters chs)"
  using numberFrom_pageNumbers [of 1 chs]
  by (simp add: numbered_def numberChapters_def numberFrom_count)

lemma applyMutation_numbered: "numbered (chapters (applyMutation state m))"
  by (cases m)
    (simp_all add: addChapter_def updateChapter_def removeChapter_def Let_def
       numberChapters_numbered)

text \<open>
  C2. Run any sequence of addChapter, updateChapter and removeChapter from any store. After
  each operation of the sequence (the one at position \<open>k\<close>) the entries of type chapter carry
  the page numbers 1, 2, ..., K in list order, K being their count.
\<close>

theorem chapters_numbered_after_each_mutation:
  "k < length ms \<Longrightarrow> numbered (chapters (foldl applyMutation state (take (Suc k) ms)))"
proof -
  assume k: "k < length ms"
  then have "take (Suc k) ms = take k ms @ [ms ! k]"
    by (rule take_Suc_conv_app_nth)
  then have "foldl applyMutation state (take (Suc k) ms) =
      applyMutation (foldl applyMutation state (take k ms)) (ms ! k)"
    by simp
  then show ?thesis
    by (simp only: applyMutation_numbered)
qed

theorem chapters_numbered_after_each_mutation_witness:
  "(2::nat) < length [AddChapter ''a'' emptyPartial, AddChapter ''b'' emptyPartial,
       RemoveChapter ''a'', UpdateChapter ''b'' emptyPartial]
   \<and> numbered (chapters (foldl applyMutation initialStore
        (take (Suc 2) [AddChapter ''a'' emptyPartial, AddChapter ''b'' emptyPartial,
           RemoveChapter ''a'', UpdateChapter ''b'' emptyPartial])))"
proof -
  have h: "(2::nat) < length [AddChapter ''a'' emptyPartial, AddChapter ''b'' emptyPartial,
       RemoveChapter ''a'', UpdateChapter ''b'' emptyPartial]"
    by simp
  from h chapters_numbered_after_each_mutation [OF h, of initialStore] show ?thesis
    by (rule conjI)
qed

section \<open>The pagination recompute\<close>

lemma pageSubChapters_strip:
  "map stripSub (fst (pageSubChapters f p c subs)) = map stripSub subs"
  by (induction subs arbitrary: c) (simp_all add: Let_def stripSub_def)

text \<open>The recompute reads nothing but the fields it leaves alone.\<close>

lemma pageSubChapters_cong:
  "map stripSub subs = map stripSub subs' \<Longrightarrow>
   pageSubChapters f p c subs = pageSubChapters f p c subs'"
proof (induction subs arbitrary: c subs')
  case Nil
  then show ?case by simp
next
  case (Cons sub subs)
  then obtain sub' rest' where s: "subs' = sub' # rest'" by (cases subs') auto
  with Cons.prems have h: "stripSub sub = stripSub sub'"
    and t: "map stripSub subs = map stripSub rest'"
    by simp_all
  from h have c: "sub_content sub = sub_content sub'"
    and u: "\<And>v. sub\<lparr>sub_pageNumber := v\<rparr> = sub'\<lparr>sub_pageNumber := v\<rparr>"
    by (cases sub; cases sub'; simp add: stripSub_def)+
  show ?case
    by (simp add: s Let_def c u Cons.IH [OF t])
qed

lemma pageChapter_strip: "stripChapter (fst (pageChapter f c ch)) = stripChapter ch"
  by (simp add: pageChapter_def Let_def stripChapter_def pageSubChapters_strip)

lemma pageChapter_cong:
  "stripChapter ch = stripChapter ch' \<Longrightarrow> pageChapter f c ch = pageChapter f c ch'"
proof -
  assume h: "stripChapter ch = stripChapter ch'"
  then have ty: "ch_type ch = ch_type ch'" and co: "ch_content ch = ch_content ch'"
    and im: "ch_images ch = ch_images ch'"
    and su: "map stripSub (ch_subChapters ch) = map stripSub (ch_subChapters ch')"
    and u: "\<And>v w. ch\<lparr>ch_pageNumber := v, ch_subChapters := w\<rparr> =
                   ch'\<lparr>ch_pageNumber := v, ch_subChapters := w\<rparr>"
    by (cases ch; cases ch'; simp add: stripChapter_def)+
  show ?thesis
    by (simp add: pageChapter_def Let_def ty co im u pageSubChapters_cong [OF su])
qed

lemma pageChapters_strip: "map stripChapter (pageChapters f c chs) = map stripChapter chs"
  by (induction chs arbitrary: c) (simp_all add: pageChapter_strip)

lemma pageChapters_cong:
  "map stripChapter chs = map stripChapter chs' \<Longrightarrow>
   pageChapters f c chs = pageChapters f c chs'"
proof (induction chs arbitrary: c chs')
  case Nil
  then show ?case by simp
next
  case (Cons ch chs)
  then obtain ch' rest' where s: "chs' = ch' # rest'" by (cases chs') auto
  with Cons.prems have h: "stripChapter ch = stripChapter ch'"
    and t: "map stripChapter chs = map stripChapter rest'"
    by simp_all
  show ?case
    by (simp add: s pageChapter_cong [OF h] Cons.IH [OF t])
qed

lemma pageChapters_idem: "pageChapters f c (pageChapters f c' chs) = pageChapters f c chs"
  by (rule pageChapters_cong) (rule pageChapters_strip)

text \<open>
  C6. Calling calculatePageNumbers a second time, with nothing changed in between, gives
  the store the first call gave: every chapter and every subchapter keeps the page number
  of the first call. This holds for every estimate of the content pages.
\<close>

theorem calculatePageNumbers_idempotent:
  "calculatePageNumbers contentPages (calculatePageNumbers contentPages state) =
   calculatePageNumbers contentPages state"
  by (simp add: calculatePageNumbers_def pageChapters_idem)

lemma strip_fields:
  "ch_id (stripChapter ch) = ch_id ch"
  "ch_title (stripChapter ch) = ch_title ch"
  "ch_content (stripChapter ch) = ch_content ch"
  "ch_images (stripChapter ch) = ch_images ch"
  "ch_type (stripChapter ch) = ch_type ch"
  "ch_indentation (stripChapter ch) = ch_indentation ch"
  "ch_lineSpacing (stripChapter ch) = ch_lineSpacing ch"
  "map sub_id (ch_subChapters (stripChapter ch)) = map sub_id (ch_subChapters ch)"
  "map sub_title (ch_subChapters (stripChapter ch)) = map sub_title (ch_subChapters ch)"
  "map sub_content (ch_subChapters (stripChapter ch)) = map sub_content (ch_subChapters ch)"
  by (simp_all add: stripChapter_def stripSub_def comp_def)

lemma strip_map_eq:
  assumes "map stripChapter xs = map stripChapter ys"
    and "\<And>ch. g (stripChapter ch) = g ch"
  shows "map g xs = map g ys"
proof -
  have "map g xs = map g (map stripChapter xs)" by (simp add: assms(2))
  also have "\<dots> = map g (map stripChapter ys)" by (simp only: assms(1))
  also have "\<dots> = map g ys" by (simp add: assms(2))
  finally show ?thesis .
qed

text \<open>
  C10. calculatePageNumbers changes page numbers only. The settings are the same; the list
  has the same length; position by position every chapter keeps its id, title, content,
  images, type, indentation and line spacing, and its subchapters keep, in the same order,
  their id, title and content.
\<close>

theorem calculatePageNumbers_frame:
  "settings (calculatePageNumbers contentPages state) = settings state
   \<and> length (chapters (calculatePageNumbers contentPages state)) = length (chapters state)
   \<and> map ch_id (chapters (calculatePageNumbers contentPages state)) = map ch_id (chapters state)
   \<and> map ch_title (chapters (calculatePageNumbers contentPages state)) =
     map ch_title (chapters state)
   \<and> map ch_content (chapters (calculatePageNumbers contentPages state)) =
     map ch_content (chapters state)
   \<and> map ch_images (chapters (calculatePageNumbers contentPages state)) =
     map ch_images (chapters state)
   \<and> map ch_type (chapters (calculatePageNumbers contentPages state)) =
     map ch_type (chapters state)
   \<and> map ch_indentation (chapters (calculatePageNumbers contentPages state)) =
     map ch_indentation (chapters state)
   \<and> map ch_lineSpacing (chapters (calculatePageNumbers contentPages state)) =
     map ch_lineSpacing (chapters state)
   \<and> map (\<lambda>ch. map sub_id (ch_subChapters ch)) (chapters (calculatePageNumbers contentPages state)) =
     map (\<lambda>ch. map sub_id (ch_subChapters ch)) (chapters state)
   \<and> map (\<lambda>ch. map sub_title (ch_subChapters ch)) (chapters (calculatePageNumbers contentPages state)) =
     map (\<lambda>ch. map sub_title (ch_subChapters ch)) (chapters state)
   \<and> map (\<lambda>ch. map sub_content (ch_subChapters ch)) (chapters (calculatePageNumbers contentPages state)) =
     map (\<lambda>ch. map sub_content (ch_subChapters ch)) (chapters state)"
proof -
  let ?f = "contentPages (settings state)" and ?c = "initialCounters (settings state)"
  have ch: "chapters (calculatePageNumbers contentPages state) = pageChapters ?f ?c (chapters state)"
    by (simp add: calculatePageNumbers_def)
  have s: "map stripChapter (pageChapters ?f ?c (chapters state)) = map stripChapter (chapters state)"
    by (rule pageChapters_strip)
  have len: "length (pageChapters ?f ?c (chapters state)) = length (chapters state)"
    using arg_cong [OF s, of length] by simp
  show ?thesis
    unfolding ch
    by (intro conjI len strip_map_eq [OF s] strip_fields) (simp add: calculatePageNumbers_def)
qed

section \<open>reorderChapters\<close>

lemma numberAll_strip: "map stripChapter (numberAll n chs) = map stripChapter chs"
  by (induction chs arbitrary: n) (simp_all add: stripChapter_def)

lemma numberFrom_strip: "map stripChapter (numberFrom n chs) = map stripChapter chs"
  by (induction chs arbitrary: n) (simp_all add: stripChapter_def)

lemma types_of_filter:
  "map ch_type (filter (\<lambda>ch. ch_type ch = t) chs) =
   replicate (length (filter (\<lambda>ch. ch_type ch = t) chs)) t"
  by (induction chs) simp_all

text \<open>
  C1. Whatever list reorderChapters is given, the stored list is the front-matter entries
  of the input, then its toc entries, then its chapter entries, then its back-matter
  entries, each group in the input's order (page numbers apart, which the operation
  recomputes). So the types of the stored list are four contiguous runs in that order.
\<close>

theorem reorderChapters_segments:
  "map stripChapter (chapters (reorderChapters contentPages chs state)) =
     map stripChapter
       (filter (\<lambda>ch. ch_type ch = type_frontmatter) chs @
        filter (\<lambda>ch. ch_type ch = type_toc) chs @
        filter (\<lambda>ch. ch_type ch = type_chapter) chs @
        filter (\<lambda>ch. ch_type ch = type_backmatter) chs)
   \<and> map ch_type (chapters (reorderChapters contentPages chs state)) =
     replicate (length (filter (\<lambda>ch. ch_type ch = type_frontmatter) chs)) type_frontmatter @
     replicate (length (filter (\<lambda>ch. ch_type ch = type_toc) chs)) type_toc @
     replicate (length (filter (\<lambda>ch. ch_type ch = type_chapter) chs)) type_chapter @
     replicate (length (filter (\<lambda>ch. ch_type ch = type_backmatter) chs)) type_backmatter"
proof -
  let ?F = "filter (\<lambda>ch. ch_type ch = type_frontmatter) chs"
  let ?T = "filter (\<lambda>ch. ch_type ch = type_toc) chs"
  let ?C = "filter (\<lambda>ch. ch_type ch = type_chapter) chs"
  let ?B = "filter (\<lambda>ch. ch_type ch = type_backmatter) chs"
  have s: "map stripChapter (chapters (reorderChapters contentPages chs state)) =
      map stripChapter (?F @ ?T @ ?C @ ?B)"
    by (simp add: reorderChapters_def Let_def calculatePageNumbers_def pageChapters_strip
        numberAll_strip)
  have "map ch_type (chapters (reorderChapters contentPages chs state)) =
      map ch_type (?F @ ?T @ ?C @ ?B)"
    by (rule strip_map_eq [OF s]) (rule strip_fields)
  also have "\<dots> = map ch_type ?F @ map ch_type ?T @ map ch_type ?C @ map ch_type ?B"
    by simp
  finally show ?thesis
    using s by (simp only: types_of_filter simp_thms)
qed

section \<open>The counters of calculatePageNumbers\<close>

text \<open>
  C8, as the code has it. When the first chapter is reached the roman counter is 1, with or
  without a cover image; the arabic counter is 2 without a cover image and 3 with one (one
  step for the cover, one for the title page). So the first entry of the list gets page
  number 1 when it is front matter or toc, and 2 or 3 otherwise.
\<close>

theorem initial_counters:
  "initialCounters s =
     \<lparr> romanPageCount = Fin 1, arabicPageCount = (if hasCover s then Fin 3 else Fin 2) \<rparr>
   \<and> map ch_pageNumber (take 1 (chapters (calculatePageNumbers contentPages state))) =
     map (\<lambda>ch. Some (if ch_type ch = type_frontmatter \<or> ch_type ch = type_toc then Fin 1
                      else if hasCover (settings state) then Fin 3 else Fin 2))
       (take 1 (chapters state))"
proof -
  have i: "\<And>s. initialCounters s =
     \<lparr> romanPageCount = Fin 1, arabicPageCount = (if hasCover s then Fin 3 else Fin 2) \<rparr>"
    by (simp add: initialCounters_def Let_def)
  show ?thesis
    by (cases "chapters state")
      (simp_all add: i calculatePageNumbers_def pageChapter_def Let_def current_def)
qed

text \<open>
  The claim as stated fails: with a cover image in the settings and one front-matter
  entry, that entry gets page number 1, so the roman counter was not incremented for the
  cover.
\<close>

theorem cover_counterexample:
  "hasCover (settings coverStore)
   \<and> map ch_type (chapters coverStore) = [type_frontmatter]
   \<and> map ch_pageNumber (chapters (calculatePageNumbers defaultContentPages coverStore)) =
       [Some (Fin 1)]
   \<and> romanPageCount (initialCounters (settings coverStore)) \<noteq> Fin 2"
  by (simp add: coverStore_def addChapter_def Let_def newChapter_def typedPartial_def
      emptyPartial_def orElse_def insertIndexFor_def skipWhile.simps initialStore_def
      numberChapters_def hasCover_def truthyString_def calculatePageNumbers_def pageChapter_def
      current_def initialCounters_def)

section \<open>Identifiers that match nothing\<close>

lemma filter_absent:
  "ident \<notin> ch_id ` set chs \<Longrightarrow> filter (\<lambda>ch. ch_id ch \<noteq> ident) chs = chs"
  by (induction chs) auto

lemma map_absent:
  "ident \<notin> ch_id ` set chs \<Longrightarrow> map (\<lambda>ch. if ch_id ch = ident then g ch else ch) chs = chs"
  by (induction chs) auto

lemma map_sub_absent:
  "\<forall>ch \<in> set chs. ch_id ch = cid \<longrightarrow> sid \<notin> sub_id ` set (ch_subChapters ch) \<Longrightarrow>
   map (\<lambda>ch. if ch_id ch = cid
          then ch\<lparr>ch_subChapters := filter (\<lambda>sub. sub_id sub \<noteq> sid) (ch_subChapters ch)\<rparr>
          else ch) chs = chs"
proof (induction chs)
  case Nil
  show ?case by simp
next
  case (Cons ch chs)
  have f: "ch_id ch = cid \<Longrightarrow>
      filter (\<lambda>sub. sub_id sub \<noteq> sid) (ch_subChapters ch) = ch_subChapters ch"
    using Cons.prems by (auto intro!: filter_True)
  from Cons show ?case by (auto simp: f)
qed

lemma oneChapterStore_value:
  "oneChapterStore =
     \<lparr> chapters =
         [\<lparr> ch_id = ''a'', ch_title = ''New Chapter'', ch_content = [], ch_images = [],
            ch_type = type_chapter, ch_indentation = Fin 0, ch_lineSpacing = Fin (3 / 2),
            ch_subChapters = [], ch_pageNumber = Some (Fin 1) \<rparr>],
       settings = defaultSettings \<rparr>"
  by (simp add: oneChapterStore_def addChapter_def Let_def newChapter_def emptyPartial_def
      orElse_def insertIndexFor_def skipWhile.simps initialStore_def numberChapters_def)

lemma hasCover_default: "\<not> hasCover defaultSettings"
  by (simp add: hasCover_def defaultSettings_def)

lemma pagedStore_value:
  "pagedStore =
     \<lparr> chapters =
         [\<lparr> ch_id = ''a'', ch_title = ''New Chapter'', ch_content = [], ch_images = [],
            ch_type = type_chapter, ch_indentation = Fin 0, ch_lineSpacing = Fin (3 / 2),
            ch_subChapters = [], ch_pageNumber = Some (Fin 2) \<rparr>],
       settings = defaultSettings \<rparr>"
  by (simp add: pagedStore_def calculatePageNumbers_def oneChapterStore_value pageChapter_def
      Let_def current_def initialCounters_def hasCover_default)

text \<open>
  C3, as the code has it. With an identifier that no stored chapter has, updateChapter and
  removeChapter do what the renumbering pass alone does: the chapter-typed entries are
  numbered 1..K again and nothing else changes. With a subchapter identifier that no
  subchapter of a chapter with the given identifier has (in particular when no chapter
  has that identifier), removeSubChapter does what calculatePageNumbers alone does. In
  all three cases the settings and every field but the page numbers stay as they were, and
  no error is raised.
\<close>

theorem absent_identifier_recomputes_only:
  "(ident \<notin> ch_id ` set (chapters state) \<longrightarrow>
      updateChapter ident p state = state\<lparr>chapters := numberChapters (chapters state)\<rparr>
    \<and> removeChapter ident state = state\<lparr>chapters := numberChapters (chapters state)\<rparr>
    \<and> map stripChapter (chapters (updateChapter ident p state)) =
        map stripChapter (chapters state)
    \<and> map stripChapter (chapters (removeChapter ident state)) =
        map stripChapter (chapters state))
   \<and> ((\<forall>ch \<in> set (chapters state). ch_id ch = chapterId \<longrightarrow>
          subChapterId \<notin> sub_id ` set (ch_subChapters ch)) \<longrightarrow>
      removeSubChapter contentPages chapterId subChapterId state =
        calculatePageNumbers contentPages state
    \<and> map stripChapter (chapters (removeSubChapter contentPages chapterId subChapterId state)) =
        map stripChapter (chapters state))
   \<and> settings (updateChapter ident p state) = settings state
   \<and> settings (removeChapter ident state) = settings state
   \<and> settings (removeSubChapter contentPages chapterId subChapterId state) = settings state"
  by (simp add: updateChapter_def removeChapter_def removeSubChapter_def Let_def
      filter_absent map_absent map_sub_absent numberChapters_def numberFrom_strip
      calculatePageNumbers_def pageChapters_strip)

theorem absent_identifier_recomputes_only_witness:
  "''zzz'' \<notin> ch_id ` set (chapters pagedStore)
   \<and> updateChapter ''zzz'' emptyPartial pagedStore =
       pagedStore\<lparr>chapters := numberChapters (chapters pagedStore)\<rparr>
   \<and> removeChapter ''zzz'' pagedStore =
       pagedStore\<lparr>chapters := numberChapters (chapters pagedStore)\<rparr>
   \<and> removeSubChapter defaultContentPages ''a'' ''s'' pagedStore =
       calculatePageNumbers defaultContentPages pagedStore"
proof -
  have h: "''zzz'' \<notin> ch_id ` set (chapters pagedStore)"
    by (simp add: pagedStore_value)
  have g: "\<forall>ch \<in> set (chapters pagedStore).
      ch_id ch = ''a'' \<longrightarrow> ''s'' \<notin> sub_id ` set (ch_subChapters ch)"
    by (simp add: pagedStore_value)
  from h g
    absent_identifier_recomputes_only
      [of "''zzz''" pagedStore emptyPartial "''a''" "''s''" defaultContentPages]
  show ?thesis by blast
qed

text \<open>
  The claim as stated fails. After \<open>addChapter({})\<close> the one chapter has page number 1, and
  after a recompute it has page number 2. On the recomputed store, updateChapter and
  removeChapter with an unknown identifier put it back to 1; on the store before the
  recompute, removeSubChapter with an unknown identifier makes it 2.
\<close>

theorem absent_identifier_counterexample:
  "''zzz'' \<notin> ch_id ` set (chapters pagedStore)
   \<and> updateChapter ''zzz'' emptyPartial pagedStore \<noteq> pagedStore
   \<and> removeChapter ''zzz'' pagedStore \<noteq> pagedStore
   \<and> removeSubChapter defaultContentPages ''zzz'' ''s'' oneChapterStore \<noteq> oneChapterStore"
proof -
  have a: "map ch_pageNumber (chapters (updateChapter ''zzz'' emptyPartial pagedStore)) =
      [Some (Fin 1)]"
    by (simp add: updateChapter_def pagedStore_value numberChapters_def)
  have b: "map ch_pageNumber (chapters (removeChapter ''zzz'' pagedStore)) = [Some (Fin 1)]"
    by (simp add: removeChapter_def pagedStore_value numberChapters_def)
  have c: "map ch_pageNumber
        (chapters (removeSubChapter defaultContentPages ''zzz'' ''s'' oneChapterStore)) =
      [Some (Fin 2)]"
    by (simp add: removeSubChapter_def calculatePageNumbers_def oneChapterStore_value
        pageChapter_def Let_def current_def initialCounters_def hasCover_default)
  have p: "map ch_pageNumber (chapters pagedStore) = [Some (Fin 2)]"
    by (simp add: pagedStore_value)
  have q: "map ch_pageNumber (chapters oneChapterStore) = [Some (Fin 1)]"
    by (simp add: oneChapterStore_value)
  have "''zzz'' \<notin> ch_id ` set (chapters pagedStore)"
    by (simp add: pagedStore_value)
  moreover have "updateChapter ''zzz'' emptyPartial pagedStore \<noteq> pagedStore"
    using a p by auto
  moreover have "removeChapter ''zzz'' pagedStore \<noteq> pagedStore"
    using b p by auto
  moreover have "removeSubChapter defaultContentPages ''zzz'' ''s'' oneChapterStore \<noteq>
      oneChapterStore"
    using c q by auto
  ultimately show ?thesis by blast
qed

section \<open>The extractor: what every run keeps\<close>

lemma foldl_inv:
  assumes "\<And>s x. P s \<Longrightarrow> P (f s x)"
  shows "P s \<Longrightarrow> P (foldl f s xs)"
  by (induction xs arbitrary: s) (simp_all add: assms)

subsection \<open>Front-matter labels follow the front-matter counter\<close>

lemma special_romanInv: "romanInv st \<Longrightarrow> romanInv (special line st)"
  by (auto simp: special_def romanInv_def Let_def isFrontmatter_def labelled_def
      intro!: list_all2_appendI split: option.splits)

lemma bab_romanInv: "romanInv st \<Longrightarrow> romanInv (bab lines line st)"
  by (auto simp: bab_def romanInv_def Let_def isFrontmatter_def split: option.splits)

lemma subbab_romanInv: "romanInv st \<Longrightarrow> romanInv (subbab line st)"
  by (auto simp: subbab_def romanInv_def Let_def isFrontmatter_def split: option.splits)

lemma processLine_romanInv: "romanInv st \<Longrightarrow> romanInv (processLine lines st line)"
  by (simp add: processLine_def special_romanInv bab_romanInv subbab_romanInv)

lemma processPage_romanInv: "romanInv st \<Longrightarrow> romanInv (processPage st text)"
proof -
  assume a: "romanInv st"
  have flag: "\<And>s b n. romanInv s \<Longrightarrow> romanInv (s\<lparr>isMainContentStarted := b, pageCounter := n\<rparr>)"
    by (simp add: romanInv_def)
  have cnt: "\<And>s n. romanInv s \<Longrightarrow> romanInv (s\<lparr>pageCounter := n\<rparr>)"
    by (simp add: romanInv_def)
  show ?thesis
    unfolding processPage_def Let_def
    by (auto intro!: cnt foldl_inv [where P = romanInv] processLine_romanInv flag a)
qed

lemma scan_romanInv: "romanInv (scan pagesText)"
  unfolding scan_def
proof (rule foldl_inv [where P = romanInv])
  show "romanInv start"
    by (simp add: romanInv_def start_def)
next
  fix s x
  assume "romanInv s"
  then show "romanInv (processPage s x)"
    by (rule processPage_romanInv)
qed

lemma romanPageAt_10: "romanPageAt 10 = ''11''"
  by code_simp

text \<open>
  C9. In a run that records eleven or more front-matter entries, the eleventh has the page
  label "11", the decimal string, and its content line ends in "Halaman 11".
\<close>

theorem eleventh_frontmatter_label:
  "10 < length (filter isFrontmatter (processTableOfContents pagesText)) \<Longrightarrow>
   entry_pageNumber (filter isFrontmatter (processTableOfContents pagesText) ! 10) = Label ''11''
   \<and> entry_content (filter isFrontmatter (processTableOfContents pagesText) ! 10) =
     entry_title (filter isFrontmatter (processTableOfContents pagesText) ! 10) @
     '' - Halaman 11''"
proof -
  assume h: "10 < length (filter isFrontmatter (processTableOfContents pagesText))"
  let ?fs = "filter isFrontmatter (tableOfContents (scan pagesText))"
  have inv: "list_all2 labelled ?fs [0 ..< romanIndex (scan pagesText)]"
    using scan_romanInv [of pagesText] by (simp add: romanInv_def)
  from h have k: "10 < length ?fs"
    by (simp add: processTableOfContents_def)
  with inv have "10 < romanIndex (scan pagesText)"
    by (auto dest: list_all2_lengthD)
  with inv k have "labelled (?fs ! 10) 10"
    by (auto dest: list_all2_nthD)
  then show ?thesis
    by (simp add: labelled_def processTableOfContents_def romanPageAt_10)
qed

theorem eleventh_frontmatter_label_witness:
  "10 < length (filter isFrontmatter (processTableOfContents elevenHeadings))
   \<and> entry_pageNumber (filter isFrontmatter (processTableOfContents elevenHeadings) ! 10) =
       Label ''11''"
proof -
  have h: "10 < length (filter isFrontmatter (processTableOfContents elevenHeadings))"
    by code_simp
  from h eleventh_frontmatter_label [OF h] show ?thesis by blast
qed

subsection \<open>One entry per heading\<close>

lemma firstMatch_at: "firstMatch f line = Some m \<Longrightarrow> \<exists>s. f s = Some m"
  by (induction line) (auto split: option.splits)

lemma toUpper_B: "toUpper CHR ''B'' = CHR ''B''"
  by (simp add: toUpper_def)

lemma not_space_B: "toUpper c = CHR ''B'' \<Longrightarrow> \<not> isSpace c"
proof
  assume u: "toUpper c = CHR ''B''" and s: "isSpace c"
  from s consider "c = CHR 0x09" | "c = CHR 0x0A" | "c = CHR 0x0B" | "c = CHR 0x0C"
    | "c = CHR 0x0D" | "c = CHR '' ''" | "c = CHR 0xA0"
    unfolding isSpace_def by blast
  then show False
    using u by cases (simp_all add: toUpper_def)
qed

lemma digit_not_space: "isDigit c \<Longrightarrow> \<not> isSpace c"
  by (auto simp: isDigit_def isSpace_def)

lemma matches_length: "matchesIgnoreCase p s \<Longrightarrow> length p \<le> length s"
  by (induction p s rule: matchesIgnoreCase.induct) auto

lemma matches_prefix:
  "matchesIgnoreCase p s \<Longrightarrow> matchesIgnoreCase p (take (length p) s @ r)"
  by (induction p s rule: matchesIgnoreCase.induct) auto

text \<open>Trimming a text that neither starts nor ends with white space, followed by a tail,
  trims the tail.\<close>

lemma trim_keep:
  assumes "xs \<noteq> []" "\<not> isSpace (hd xs)" "\<not> isSpace (last xs)"
  shows "trim (xs @ t) = xs @ rev (dropWhile isSpace (rev t))"
proof -
  from assms(1,2) have a: "dropWhile isSpace (xs @ t) = xs @ t"
    by (cases xs) simp_all
  from assms(1,3) have b: "dropWhile isSpace (rev xs) = rev xs"
    by (cases xs rule: rev_cases) simp_all
  have "dropWhile isSpace (rev t @ rev xs) = dropWhile isSpace (rev t) @ rev xs"
    by (simp add: dropWhile_append b)
  then show ?thesis
    by (simp add: trim_def a)
qed

text \<open>The trimmed text of a chapter match still starts with "Bab", a space and digits.\<close>

lemma babAt_trim: "babAt s = Some m \<Longrightarrow> babAt (trim m) \<noteq> None"
proof -
  assume h: "babAt s = Some m"
  let ?ds = "takeWhile isDigit (drop 4 s)"
  let ?t = "trailing (dropWhile isDigit (drop 4 s))"
  from h have mt: "matchesIgnoreCase ''Bab '' s" and ds: "?ds \<noteq> []"
    and m: "m = (take 4 s @ ?ds) @ ?t"
    by (auto simp: babAt_def split: if_splits)
  from mt have len: "4 \<le> length s"
    using matches_length [of "''Bab ''" s] by simp
  then obtain c cs where s: "s = c # cs" by (cases s) auto
  with mt have "toUpper c = CHR ''B''" by (simp add: toUpper_B)
  then have c: "\<not> isSpace c" by (rule not_space_B)
  from ds have "last ?ds \<in> set ?ds" by simp
  then have "isDigit (last ?ds)" by (rule set_takeWhileD [THEN conjunct2])
  then have l: "\<not> isSpace (last (take 4 s @ ?ds))"
    using ds by (simp add: digit_not_space)
  have hd: "\<not> isSpace (hd (take 4 s @ ?ds))"
    using c s by simp
  have ne: "take 4 s @ ?ds \<noteq> []" using ds by simp
  let ?t' = "rev (dropWhile isSpace (rev ?t))"
  have tr: "trim m = take 4 s @ ?ds @ ?t'"
    unfolding m using trim_keep [OF ne hd l] by simp
  have p: "matchesIgnoreCase ''Bab '' (take 4 s @ ?ds @ ?t')"
    using matches_prefix [OF mt, of "?ds @ ?t'"] by (simp add: eval_nat_numeral)
  have d: "drop 4 (take 4 s @ ?ds @ ?t') = ?ds @ ?t'"
    using len by simp
  from ds obtain x xs where x: "?ds = x # xs" by (cases ?ds) auto
  then have "x \<in> set ?ds" by simp
  then have "isDigit x" by (rule set_takeWhileD [THEN conjunct2])
  then have tw: "takeWhile isDigit (?ds @ ?t') \<noteq> []"
    by (simp add: x)
  show ?thesis
    unfolding tr babAt_def using p tw by (simp only: d if_True simp_thms option.simps)
qed

lemma bab_heading: "firstMatch babAt line = Some m \<Longrightarrow> babAt (trim m) \<noteq> None"
  using firstMatch_at babAt_trim by blast

lemma special_seenInv: "seenInv st \<Longrightarrow> seenInv (special line st)"
  by (auto simp: special_def seenInv_def Let_def keyed_def has_def add_def
      intro!: list_all2_appendI split: option.splits)

lemma bab_seenInv: "seenInv st \<Longrightarrow> seenInv (bab lines line st)"
  by (auto simp: bab_def seenInv_def Let_def keyed_def has_def add_def bab_heading
      intro!: list_all2_appendI split: option.splits)

lemma subbab_seenInv: "seenInv st \<Longrightarrow> seenInv (subbab line st)"
  by (auto simp: subbab_def seenInv_def Let_def keyed_def has_def add_def
      intro!: list_all2_appendI split: option.splits)

lemma processLine_seenInv: "seenInv st \<Longrightarrow> seenInv (processLine lines st line)"
  by (simp add: processLine_def special_seenInv bab_seenInv subbab_seenInv)

lemma processPage_seenInv: "seenInv st \<Longrightarrow> seenInv (processPage st text)"
proof -
  assume a: "seenInv st"
  have flag: "\<And>s b n. seenInv s \<Longrightarrow> seenInv (s\<lparr>isMainContentStarted := b, pageCounter := n\<rparr>)"
    by (simp add: seenInv_def)
  have cnt: "\<And>s n. seenInv s \<Longrightarrow> seenInv (s\<lparr>pageCounter := n\<rparr>)"
    by (simp add: seenInv_def)
  show ?thesis
    unfolding processPage_def Let_def
    by (auto intro!: cnt foldl_inv [where P = seenInv] processLine_seenInv flag a)
qed

lemma scan_seenInv: "seenInv (scan pagesText)"
  unfolding scan_def
proof (rule foldl_inv [where P = seenInv])
  show "seenInv start"
    by (simp add: seenInv_def start_def)
next
  fix s x
  assume "seenInv s"
  then show "seenInv (processPage s x)"
    by (rule processPage_seenInv)
qed

lemma keyed_titles:
  "list_all2 keyed es hs \<Longrightarrow> distinct hs \<Longrightarrow>
   distinct (map entry_title (filter (\<lambda>e. entry_type e \<noteq> entry_chapter) es))
   \<and> set (map entry_title (filter (\<lambda>e. entry_type e \<noteq> entry_chapter) es)) \<subseteq> set hs"
proof (induction es hs rule: list_all2_induct)
  case Nil
  show ?case by simp
next
  case (Cons e es h hs)
  then show ?case by (auto simp: keyed_def split: if_splits)
qed

text \<open>The log changes nothing of the run: the state beside it is the state of the scan.\<close>

lemma fst_logged: "fst (logged h step p) = step (fst p)"
  by (simp add: logged_def)

lemma fst_processLineLogged:
  "fst (processLineLogged lines p line) = processLine lines (fst p) line"
  by (simp add: processLineLogged_def processLine_def fst_logged)

lemma fst_foldl_lines:
  "fst (foldl (processLineLogged lines) p ls) = foldl (processLine lines) (fst p) ls"
  by (induction ls arbitrary: p) (simp_all add: fst_processLineLogged)

lemma fst_processPageLogged: "fst (processPageLogged p text) = processPage (fst p) text"
  by (simp add: processPageLogged_def processPage_def Let_def fst_foldl_lines)

lemma fst_foldl_pages:
  "fst (foldl processPageLogged p pagesText) = foldl processPage (fst p) pagesText"
  by (induction pagesText arbitrary: p) (simp_all add: fst_processPageLogged)

lemma fst_scanLogged: "fst (scanLogged pagesText) = scan pagesText"
  by (simp add: scanLogged_def scan_def fst_foldl_pages)

text \<open>A step pushes an entry exactly when it adds the heading it works with to
  \<open>seenHeadings\<close>, so the log and the set stay equal.\<close>

lemma special_logInv:
  "logInv p \<Longrightarrow> logInv (logged (headingOn specialAt line) (special line) p)"
  by (auto simp: logInv_def logged_def special_def headingOn_def has_def add_def Let_def
      split: option.splits)

lemma bab_logInv: "logInv p \<Longrightarrow> logInv (logged (headingOn babAt line) (bab lines line) p)"
  by (auto simp: logInv_def logged_def bab_def headingOn_def has_def add_def Let_def
      split: option.splits)

lemma subbab_logInv:
  "logInv p \<Longrightarrow> logInv (logged (headingOn subbabAt line) (subbab line) p)"
  by (auto simp: logInv_def logged_def subbab_def headingOn_def has_def add_def Let_def
      split: option.splits)

lemma processLineLogged_logInv: "logInv p \<Longrightarrow> logInv (processLineLogged lines p line)"
  by (simp add: processLineLogged_def special_logInv bab_logInv subbab_logInv)

lemma processPageLogged_logInv: "logInv p \<Longrightarrow> logInv (processPageLogged p text)"
proof -
  assume a: "logInv p"
  let ?st1 = "if \<not> isMainContentStarted (fst p) \<and> firstMatch bab1At text \<noteq> None
      then (fst p)\<lparr>isMainContentStarted := True, pageCounter := 1\<rparr> else fst p"
  from a have "logInv (?st1, snd p)"
    by (simp add: logInv_def)
  then have "logInv (foldl (processLineLogged (split text)) (?st1, snd p) (split text))"
    by (rule foldl_inv [where P = logInv, rotated]) (rule processLineLogged_logInv)
  then show ?thesis
    by (simp add: processPageLogged_def Let_def logInv_def)
qed

lemma scanLogged_logInv: "logInv (scanLogged pagesText)"
  unfolding scanLogged_def
proof (rule foldl_inv [where P = logInv])
  show "logInv (start, [])"
    by (simp add: logInv_def start_def)
next
  fix s x
  assume "logInv s"
  then show "logInv (processPageLogged s x)"
    by (rule processPageLogged_logInv)
qed

lemma matchedHeadings_seen: "matchedHeadings pagesText = seenHeadings (scan pagesText)"
  using scanLogged_logInv [of pagesText]
  by (simp add: logInv_def matchedHeadings_def fst_scanLogged)

text \<open>
  C7. For every page list, take for each entry of the output, in order, the heading text
  whose match recorded it (\<open>matchedHeadings\<close>: the trimmed match of the front-matter,
  chapter or subchapter pattern on the line that pushed the entry). These heading texts
  are pairwise different: no heading text, of any of the three kinds, has two entries,
  however many pages and lines match it. The list has one heading per entry, it is the
  content of \<open>seenHeadings\<close> in insertion order, the heading beside a front-matter or
  subchapter entry is its title and the one beside a chapter entry is a text the chapter
  pattern matches; so the titles of the front-matter and subchapter entries are pairwise
  different in the output. The first conjunct says that the log beside the state leaves
  the run as it is.
\<close>

theorem headings_recorded_once:
  "fst (scanLogged pagesText) = scan pagesText
   \<and> length (matchedHeadings pagesText) = length (processTableOfContents pagesText)
   \<and> distinct (matchedHeadings pagesText)
   \<and> list_all2 keyed (processTableOfContents pagesText) (matchedHeadings pagesText)
   \<and> matchedHeadings pagesText = seenHeadings (scan pagesText)
   \<and> distinct (map entry_title
        (filter (\<lambda>e. entry_type e \<noteq> entry_chapter) (processTableOfContents pagesText)))"
proof -
  have inv: "seenInv (scan pagesText)" by (rule scan_seenInv)
  then have d: "distinct (seenHeadings (scan pagesText))"
    and k: "list_all2 keyed (tableOfContents (scan pagesText)) (seenHeadings (scan pagesText))"
    by (simp_all add: seenInv_def)
  from k have l: "length (seenHeadings (scan pagesText)) = length (tableOfContents (scan pagesText))"
    by (simp add: list_all2_lengthD)
  from keyed_titles [OF k d] d k l show ?thesis
    by (simp add: matchedHeadings_seen fst_scanLogged processTableOfContents_def)
qed

text \<open>Two pages that both read "Bab 1" and "A": one chapter entry, recorded for the heading
  "Bab 1" of the first page.\<close>

theorem headings_recorded_once_witness:
  "matchedHeadings repeatedPages = [''Bab 1'']
   \<and> map entry_title (processTableOfContents repeatedPages) = [''A'']
   \<and> distinct (matchedHeadings repeatedPages)
   \<and> length (matchedHeadings repeatedPages) = length (processTableOfContents repeatedPages)"
proof -
  have a: "matchedHeadings repeatedPages = [''Bab 1'']" by code_simp
  have b: "map entry_title (processTableOfContents repeatedPages) = [''A'']" by code_simp
  from a b headings_recorded_once [of repeatedPages] show ?thesis by blast
qed

section \<open>The extractor on the example pages\<close>

text \<open>
  C5, as the code has it. On the four example pages the extractor returns four entries:
  front matter "Kata Pengantar" with label "i"; a chapter titled "Introduction" on page 1; the
  subchapter "1.1 Overview" on page 2; a chapter titled "Next" on page 3. The page counter
  goes up once per page scanned from the page of "Bab 1" on, and the subchapter and the
  second chapter are on the second and third such page.
\<close>

theorem example_entries:
  "map (\<lambda>e. (entry_type e, entry_title e, entry_pageNumber e))
     (processTableOfContents examplePages) =
   [(entry_frontmatter, ''Kata Pengantar'', Label ''i''),
    (entry_chapter, ''Introduction'', Page 1),
    (entry_subchapter, ''1.1 Overview'', Page 2),
    (entry_chapter, ''Next'', Page 3)]"
  by code_simp

text \<open>
  The example as the claim states it fails: the subchapter is not on page 1, the second
  chapter is not on page 2, and the two chapter labels are not "BAB 1 : Introduction" and
  "BAB 2 : Next".
\<close>

theorem example_counterexample:
  "entry_pageNumber (processTableOfContents examplePages ! 2) \<noteq> Page 1
   \<and> entry_pageNumber (processTableOfContents examplePages ! 3) \<noteq> Page 2
   \<and> entry_content (processTableOfContents examplePages ! 1) \<noteq> ''BAB 1 : Introduction''
   \<and> entry_content (processTableOfContents examplePages ! 3) \<noteq> ''BAB 2 : Next''"
  by code_simp

text \<open>
  C4. The number in a chapter label is one more than the number of entries of any type
  recorded before it. A foreword page followed by the first chapter gives the label
  "BAB 2 : Introduction", where the claim has "BAB 1 : Introduction".
\<close>

theorem chapter_label_counts_all_entries:
  "map entry_content (processTableOfContents forewordPages) =
   [''Kata Pengantar - Halaman i'', ''BAB 2 : Introduction'']"
  by code_simp

end
